theory Spec2Isabelle
  imports Complex_Main "HOL-Library.Sublist" "HOL-Library.Product_Lexorder"
begin

section \<open>Python strings\<close>

text \<open>
  A Python \<open>str\<close> is modelled as a \<open>string\<close> (a list of 8-bit characters). The character
  classes below are Python's on ASCII text, which is what the catalog files and the
  reference tables of the program hold; a character above 127 is in no class and is left
  alone by \<open>upper\<close>. A Python \<open>float\<close> is read as the rational number it denotes.
\<close>

definition uppercase :: string where
  "uppercase = ''ABCDEFGHIJKLMNOPQRSTUVWXYZ''"

definition lowercase :: string where
  "lowercase = ''abcdefghijklmnopqrstuvwxyz''"

definition digits :: string where
  "digits = ''0123456789''"

definition whitespace :: string where
  \<comment> \<open>TAB, LF, VT, FF, CR, FS, GS, RS, US and the space: the ASCII characters for which
      \<open>str.isspace\<close> holds\<close>
  "whitespace = [CHR 0x09, CHR 0x0A, CHR 0x0B, CHR 0x0C, CHR 0x0D,
                 CHR 0x1C, CHR 0x1D, CHR 0x1E, CHR 0x1F, CHR '' '']"

definition is_space :: "char \<Rightarrow> bool" where
  "is_space c = (c \<in> set whitespace)"

definition is_digit :: "char \<Rightarrow> bool" where
  "is_digit c = (c \<in> set digits)"

definition is_upper :: "char \<Rightarrow> bool" where
  "is_upper c = (c \<in> set uppercase)"

definition is_lower :: "char \<Rightarrow> bool" where
  "is_lower c = (c \<in> set lowercase)"

definition is_word :: "char \<Rightarrow> bool" where
  \<comment> \<open>the class \<open>\w\<close>: letters, digits and the underscore\<close>
  "is_word c = (is_digit c \<or> is_upper c \<or> is_lower c \<or> c = CHR ''_'')"

definition upper_char :: "char \<Rightarrow> char" where
  "upper_char c = (case map_of (zip lowercase uppercase) c of None \<Rightarrow> c | Some u \<Rightarrow> u)"

definition lower_char :: "char \<Rightarrow> char" where
  "lower_char c = (case map_of (zip uppercase lowercase) c of None \<Rightarrow> c | Some l \<Rightarrow> l)"

definition upper :: "string \<Rightarrow> string" where
  \<comment> \<open>\<open>s.upper()\<close>\<close>
  "upper s = map upper_char s"

definition lstrip :: "string \<Rightarrow> string" where
  "lstrip s = dropWhile is_space s"

definition rstrip :: "string \<Rightarrow> string" where
  "rstrip s = rev (dropWhile is_space (rev s))"

definition strip :: "string \<Rightarrow> string" where
  \<comment> \<open>\<open>s.strip()\<close>\<close>
  "strip s = rstrip (lstrip s)"

definition startswith :: "string \<Rightarrow> string \<Rightarrow> bool" where
  \<comment> \<open>\<open>s.startswith(p)\<close>\<close>
  "startswith s p = prefix p s"

definition contains :: "string \<Rightarrow> string \<Rightarrow> bool" where
  \<comment> \<open>\<open>sub in s\<close>\<close>
  "contains s sub = sublist sub s"

definition remove_char :: "char \<Rightarrow> string \<Rightarrow> string" where
  \<comment> \<open>\<open>s.replace(c, '')\<close> for a one-character \<open>c\<close>\<close>
  "remove_char c s = filter (\<lambda>x. x \<noteq> c) s"

fun join :: "string \<Rightarrow> string list \<Rightarrow> string" where
  \<comment> \<open>\<open>sep.join(parts)\<close>\<close>
  "join sep [] = []"
| "join sep [p] = p"
| "join sep (p # q # ps) = p @ sep @ join sep (q # ps)"

section \<open>Regular expressions\<close>

text \<open>
  The patterns of the program, as terms: each pattern of the source is a \<open>regex\<close> below,
  and \<open>ms\<close> is a backtracking matcher that returns the ways a pattern matches at a
  position, in the order Python's matcher tries them (alternatives left to right,
  repetitions greedy). A way to match is the text matched, the text left and the groups
  captured; the matcher is told the character before the position, which \<open>\b\<close> and \<open>^\<close>
  read. Every repeated sub-pattern of the program consumes a character, and none of its
  patterns matches the empty string; an iteration that consumes nothing is dropped.
\<close>

datatype regex =
    Eps
  | Chr char
  | Dot
  | Digit
  | Space
  | Set string
  | Bound
  | Bol
  | Eol
  | Seq regex regex
  | Alt regex regex
  | Rep nat "nat option" regex
  | Group nat regex

type_synonym caps = "(nat \<times> string) list"

type_synonym results = "(string \<times> string \<times> caps) list"

type_synonym matcher = "char option \<Rightarrow> string \<Rightarrow> caps \<Rightarrow> results"

definition one :: "(char \<Rightarrow> bool) \<Rightarrow> matcher" where
  "one p prev s c = (case s of [] \<Rightarrow> [] | y # ys \<Rightarrow> if p y then [([y], ys, c)] else [])"

definition word_before :: "char option \<Rightarrow> bool" where
  "word_before prev = (case prev of None \<Rightarrow> False | Some x \<Rightarrow> is_word x)"

definition word_after :: "string \<Rightarrow> bool" where
  "word_after s = (case s of [] \<Rightarrow> False | y # ys \<Rightarrow> is_word y)"

definition guard :: "bool \<Rightarrow> matcher" where
  "guard p prev s c = (if p then [([], s, c)] else [])"

definition last_char :: "char option \<Rightarrow> string \<Rightarrow> char option" where
  \<comment> \<open>the character before the position reached after matching \<open>t\<close>\<close>
  "last_char prev t = (if t = [] then prev else Some (last t))"

fun prepend :: "string \<Rightarrow> results \<Rightarrow> results" where
  "prepend t1 [] = []"
| "prepend t1 ((t2, s2, c2) # rest) = (t1 @ t2, s2, c2) # prepend t1 rest"

fun continue :: "char option \<Rightarrow> matcher \<Rightarrow> results \<Rightarrow> results" where
  \<comment> \<open>each way the first pattern matched, continued by the second\<close>
  "continue prev g [] = []"
| "continue prev g ((t1, s1, c1) # rest) =
     prepend t1 (g (last_char prev t1) s1 c1) @ continue prev g rest"

definition andthen :: "matcher \<Rightarrow> matcher \<Rightarrow> matcher" where
  "andthen f g prev s c = continue prev g (f prev s c)"

fun progress :: "results \<Rightarrow> results" where
  "progress [] = []"
| "progress ((t, s', c') # rest) = (if t = [] then progress rest else (t, s', c') # progress rest)"

fun capture :: "nat \<Rightarrow> results \<Rightarrow> results" where
  "capture n [] = []"
| "capture n ((t, s', c') # rest) = (t, s', (n, t) # c') # capture n rest"

fun reps :: "matcher \<Rightarrow> nat \<Rightarrow> nat \<Rightarrow> nat option \<Rightarrow> matcher" where
  \<comment> \<open>greedy repetition \<open>{lo,hi}\<close> of a matcher; the second argument bounds the number of
      iterations by the length of the text left\<close>
  "reps f 0 lo hi prev s c = (if lo = 0 then [([], s, c)] else [])"
| "reps f (Suc n) lo hi prev s c =
     (if hi = Some 0 then [([], s, c)]
      else continue prev (reps f n (lo - 1) (map_option (\<lambda>h. h - 1) hi)) (progress (f prev s c))
           @ (if lo = 0 then [([], s, c)] else []))"

primrec ms :: "regex \<Rightarrow> bool \<Rightarrow> matcher" where
  \<comment> \<open>the second argument is the flag IGNORECASE\<close>
  "ms Eps ic = guard True"
| "ms (Chr x) ic = one (\<lambda>y. if ic then upper_char y = upper_char x else y = x)"
| "ms Dot ic = one (\<lambda>y. y \<noteq> CHR 0x0A)"
| "ms Digit ic = one is_digit"
| "ms Space ic = one is_space"
| "ms (Set cs) ic =
     one (\<lambda>y. y \<in> set cs \<or> (ic \<and> (upper_char y \<in> set cs \<or> lower_char y \<in> set cs)))"
| "ms Bound ic = (\<lambda>prev s c. guard (word_before prev \<noteq> word_after s) prev s c)"
| "ms Bol ic = (\<lambda>prev s c. guard (prev = None) prev s c)"
| "ms Eol ic = (\<lambda>prev s c. guard (s = [] \<or> s = [CHR 0x0A]) prev s c)"
| "ms (Seq r1 r2) ic = andthen (ms r1 ic) (ms r2 ic)"
| "ms (Alt r1 r2) ic = (\<lambda>prev s c. ms r1 ic prev s c @ ms r2 ic prev s c)"
| "ms (Rep lo hi r) ic = (\<lambda>prev s c. reps (ms r ic) (length s) lo hi prev s c)"
| "ms (Group n r) ic = (\<lambda>prev s c. capture n (ms r ic prev s c))"

record rmatch =
  m_text :: string
  m_groups :: caps

definition match_at :: "regex \<Rightarrow> bool \<Rightarrow> char option \<Rightarrow> string \<Rightarrow> rmatch option" where
  \<comment> \<open>the first way the pattern matches at this position, if any\<close>
  "match_at r ic prev s =
     (case ms r ic prev s [] of
        [] \<Rightarrow> None
      | (t, s', c') # _ \<Rightarrow> Some \<lparr>m_text = t, m_groups = c'\<rparr>)"

fun search_from :: "regex \<Rightarrow> bool \<Rightarrow> char option \<Rightarrow> string \<Rightarrow> rmatch option" where
  "search_from r ic prev [] = match_at r ic prev []"
| "search_from r ic prev (x # xs) =
     (case match_at r ic prev (x # xs) of
        Some m \<Rightarrow> Some m
      | None \<Rightarrow> search_from r ic (Some x) xs)"

definition re_search :: "regex \<Rightarrow> bool \<Rightarrow> string \<Rightarrow> rmatch option" where
  \<comment> \<open>\<open>re.search\<close>: the leftmost match\<close>
  "re_search r ic s = search_from r ic None s"

definition re_match :: "regex \<Rightarrow> bool \<Rightarrow> string \<Rightarrow> rmatch option" where
  \<comment> \<open>\<open>re.match\<close>: a match at the start of the string\<close>
  "re_match r ic s = match_at r ic None s"

definition mgroup :: "rmatch \<Rightarrow> nat \<Rightarrow> string" where
  \<comment> \<open>\<open>m.group(n)\<close>; every group the program reads takes part in every match of its pattern\<close>
  "mgroup m n = (case map_of (m_groups m) n of None \<Rightarrow> [] | Some t \<Rightarrow> t)"

fun finditer_from :: "regex \<Rightarrow> bool \<Rightarrow> nat \<Rightarrow> char option \<Rightarrow> string \<Rightarrow> rmatch list" where
  \<comment> \<open>the third argument counts the characters of the last match still to be skipped\<close>
  "finditer_from r ic skip prev [] =
     (if skip = 0 then (case match_at r ic prev [] of None \<Rightarrow> [] | Some m \<Rightarrow> [m]) else [])"
| "finditer_from r ic skip prev (x # xs) =
     (if 0 < skip then finditer_from r ic (skip - 1) (Some x) xs
      else (case match_at r ic prev (x # xs) of
              None \<Rightarrow> finditer_from r ic 0 (Some x) xs
            | Some m \<Rightarrow> m # finditer_from r ic (length (m_text m) - 1) (Some x) xs))"

definition finditer :: "regex \<Rightarrow> bool \<Rightarrow> string \<Rightarrow> rmatch list" where
  \<comment> \<open>\<open>pattern.finditer(s)\<close>: the matches from left to right, none overlapping\<close>
  "finditer r ic s = finditer_from r ic 0 None s"

fun sub_from ::
  "regex \<Rightarrow> bool \<Rightarrow> (rmatch \<Rightarrow> string) \<Rightarrow> nat \<Rightarrow> char option \<Rightarrow> string \<Rightarrow> string" where
  "sub_from r ic repl skip prev [] =
     (if skip = 0 then (case match_at r ic prev [] of None \<Rightarrow> [] | Some m \<Rightarrow> repl m) else [])"
| "sub_from r ic repl skip prev (x # xs) =
     (if 0 < skip then sub_from r ic repl (skip - 1) (Some x) xs
      else (case match_at r ic prev (x # xs) of
              None \<Rightarrow> x # sub_from r ic repl 0 (Some x) xs
            | Some m \<Rightarrow>
                if m_text m = [] then repl m @ x # sub_from r ic repl 0 (Some x) xs
                else repl m @ sub_from r ic repl (length (m_text m) - 1) (Some x) xs))"

definition re_sub :: "regex \<Rightarrow> bool \<Rightarrow> (rmatch \<Rightarrow> string) \<Rightarrow> string \<Rightarrow> string" where
  \<comment> \<open>\<open>pattern.sub(repl, s)\<close>, the replacement as a function of the match\<close>
  "re_sub r ic repl s = sub_from r ic repl 0 None s"

definition lit :: "string \<Rightarrow> regex" where
  "lit s = foldr (\<lambda>c r. Seq (Chr c) r) s Eps"

definition seqs :: "regex list \<Rightarrow> regex" where
  "seqs rs = foldr Seq rs Eps"

fun alts :: "regex list \<Rightarrow> regex" where
  "alts [] = Eps"
| "alts [r] = r"
| "alts (r # rs) = Alt r (alts rs)"

definition Star :: "regex \<Rightarrow> regex" where
  "Star r = Rep 0 None r"

definition Plus :: "regex \<Rightarrow> regex" where
  "Plus r = Rep 1 None r"

definition Opt :: "regex \<Rightarrow> regex" where
  "Opt r = Rep 0 (Some 1) r"

definition Times :: "nat \<Rightarrow> regex \<Rightarrow> regex" where
  "Times n r = Rep n (Some n) r"

section \<open>search.py\<close>

definition decimal_re :: regex where
  \<comment> \<open>\<^verbatim>\<open>\b0?\.(\d{3})\b\<close>\<close>
  "decimal_re = seqs [Bound, Opt (Chr CHR ''0''), Chr CHR ''.'', Group 1 (Times 3 Digit), Bound]"

definition fraction_re :: regex where
  \<comment> \<open>\<^verbatim>\<open>\b(\d+)/(\d+)\b\<close>\<close>
  "fraction_re = seqs [Bound, Group 1 (Plus Digit), Chr CHR ''/'', Group 2 (Plus Digit), Bound]"

definition DIAMETER_PATTERNS :: "(regex \<times> (rmatch \<Rightarrow> string)) list" where
  "DIAMETER_PATTERNS =
     [(decimal_re, \<lambda>m. mgroup m 1),
      (fraction_re, \<lambda>m. mgroup m 1 @ '' '' @ mgroup m 2)]"

definition ALLOY_PATTERN :: regex where
  \<comment> \<open>\<^verbatim>\<open>\b(?:ER|E)?(\d{2,4}[A-Z]?S?-?\d{0,3}[A-Z]{0,3})\b\<close>, IGNORECASE\<close>
  "ALLOY_PATTERN =
     seqs [Bound, Opt (alts [lit ''ER'', Chr CHR ''E'']), Group 1 (seqs [Rep 2 (Some 4) Digit, Opt (Set uppercase), Opt (Chr CHR ''S''), Opt (Chr CHR ''-''), Rep 0 (Some 3) Digit, Rep 0 (Some 3) (Set uppercase)]), Bound]"

definition KNOWN_ALLOYS :: "string list" where
  "KNOWN_ALLOYS =
     [''70S6'',
      ''70S-6'',
      ''70S3'',
      ''70S-3'',
      ''80SD2'',
      ''80S-D2'',
      ''308L'',
      ''308'',
      ''309L'',
      ''309'',
      ''316L'',
      ''316'',
      ''317L'',
      ''7018'',
      ''7014'',
      ''7024'',
      ''6010'',
      ''6011'',
      ''6013'',
      ''4043'',
      ''5356'',
      ''5183'',
      ''5556'',
      ''4047'',
      ''4145'',
      ''2209'',
      ''2594'',
      ''71T1'',
      ''71T9'',
      ''71T8'',
      ''71T11'',
      ''80NI1'',
      ''80S'']"

definition PKG_WEIGHT_PATTERN :: regex where
  \<comment> \<open>\<^verbatim>\<open>\b(\d+)\s*(?:#|lbs?|lb)\b\<close>, IGNORECASE\<close>
  "PKG_WEIGHT_PATTERN =
     seqs [Bound, Group 1 (Plus Digit), Star Space, alts [Chr CHR ''#'', seqs [lit ''lb'', Opt (Chr CHR ''s'')], lit ''lb''], Bound]"

definition PKG_TYPE_PATTERN :: regex where
  \<comment> \<open>\<^verbatim>\<open>\b(spool|drum|coil|basket|carton|tube|hermetic|vacpak|pallet|bulk|mini)\b\<close>, IGNORECASE\<close>
  "PKG_TYPE_PATTERN =
     seqs [Bound, Group 1 (alts [lit ''spool'', lit ''drum'', lit ''coil'', lit ''basket'', lit ''carton'', lit ''tube'', lit ''hermetic'', lit ''vacpak'', lit ''pallet'', lit ''bulk'', lit ''mini'']), Bound]"

definition EXPANSIONS :: "(regex \<times> string) list" where
  \<comment> \<open>every pattern is compiled with IGNORECASE\<close>
  "EXPANSIONS =
     [(seqs [Bound, lit ''s6'', Bound], ''70S 6''),
      (seqs [Bound, lit ''s-6'', Bound], ''70S 6''),
      (seqs [Bound, lit ''s3'', Bound], ''70S 3''),
      (seqs [Bound, lit ''s-3'', Bound], ''70S 3''),
      (seqs [Bound, lit ''ER70S'', Opt (Set ''-.''), Chr CHR ''6'', Bound], ''70S 6''),
      (seqs [Bound, lit ''70S'', Opt (Set ''-.''), Chr CHR ''6'', Bound], ''70S 6''),
      (seqs [Bound, lit ''ER70S'', Opt (Set ''-.''), Chr CHR ''3'', Bound], ''70S 3''),
      (seqs [Bound, lit ''70S'', Opt (Set ''-.''), Chr CHR ''3'', Bound], ''70S 3''),
      (seqs [Bound, lit ''dual'', Star Space, lit ''shield'', Bound], ''DS''),
      (seqs [Bound, lit ''coreshield'', Bound], ''CS''),
      (seqs [Bound, lit ''atom'', Star Space, lit ''arc'', Bound], ''AA''),
      (seqs [Bound, lit ''spoolarc'', Bound], ''SA''),
      (seqs [Bound, lit ''sureweld'', Bound], ''SUREWELD''),
      (seqs [Bound, lit ''autoshield'', Bound], ''AS''),
      (seqs [Bound, lit ''coreweld'', Bound], ''CW''),
      (seqs [Bound, lit ''alcotec'', Bound], ''ER''),
      (seqs [Bound, lit ''shield'', Opt (Set (''- '')), lit ''brite'', Bound], ''SB''),
      (seqs [Bound, lit ''exaton'', Bound], ''EXATON''),
      (seqs [Bound, lit ''spraymaster'', Bound], ''SPRAY MASTER''),
      (seqs [Bound, lit ''spray'', Star Space, lit ''master'', Bound], ''SPRAY MASTER''),
      (seqs [Bound, lit ''tig'', Star Space, lit ''rod'', Bound], ''TIG''),
      (seqs [Bound, lit ''tig'', Star Space, lit ''wire'', Bound], ''TIG''),
      (seqs [Bound, lit ''mig'', Star Space, lit ''wire'', Bound], ''WELD''),
      (seqs [Bound, lit ''stick'', Bound], ''ELECTRODE''),
      (seqs [Bound, lit ''smaw'', Bound], ''ELECTRODE''),
      (seqs [Bound, lit ''fcaw'', Bound], ''DS''),
      (seqs [Bound, lit ''gmaw'', Bound], ''WELD''),
      (seqs [Bound, lit ''flux'', Opt (Set (''- '')), lit ''core'', Bound], ''DS''),
      (seqs [Bound, lit ''self'', Opt (Set (''- '')), lit ''shield'', Bound], ''CS''),
      (seqs [Bound, lit ''rebel'', Bound], ''REBEL''),
      (seqs [Bound, lit ''robust'', Star Space, lit ''feed'', Bound], ''ROBUST FEED''),
      (seqs [Bound, lit ''cutmaster'', Bound], ''CUTMASTER''),
      (seqs [Bound, lit ''purus'', Bound], ''PURUS''),
      (seqs [Bound, lit ''oks'', Bound], ''OK''),
      (seqs [Bound, lit ''rutilia'', Bound], ''SUREWELD'')]"

definition STOP_WORDS :: "string list" where
  "STOP_WORDS = [''WIRE'', ''ROD'', ''FILLER'', ''WELDING'', ''THE'', ''A'', ''AN'', ''FOR'', ''AND'', ''WITH'', ''OF'']"

definition slash_re :: regex where
  \<comment> \<open>\<^verbatim>\<open>(\d)/(\d+)\<close>\<close>
  "slash_re = seqs [Group 1 Digit, Chr CHR ''/'', Group 2 (Plus Digit)]"

definition token_re :: regex where
  \<comment> \<open>\<^verbatim>\<open>[A-Z0-9]+\<close>\<close>
  "token_re = Plus (Set (uppercase @ digits))"

record parsed_query =
  raw :: string
  diameters :: "string list"
  alloys :: "string list"
  pkg_weights :: "string list"
  pkg_types :: "string list"
  tokens :: "string list"
  normalized :: string

definition ParsedQuery :: "string \<Rightarrow> parsed_query" where
  "ParsedQuery text =
     \<lparr>raw = text, diameters = [], alloys = [], pkg_weights = [], pkg_types = [], tokens = [],
      normalized = []\<rparr>"

definition parse_query :: "string \<Rightarrow> parsed_query" where
  "parse_query text =
     (let pq = ParsedQuery text;
          working = strip text
      in if working = [] then pq
         else
           (let ds = concat (map (\<lambda>(pattern, extractor). map extractor (finditer pattern False working))
                               DIAMETER_PATTERNS);
                ws = map (\<lambda>m. mgroup m 1) (finditer PKG_WEIGHT_PATTERN True working);
                ts = map (\<lambda>m. upper (mgroup m 1)) (finditer PKG_TYPE_PATTERN True working);
                norm0 = strip (upper working);
                norm1 = foldl (\<lambda>norm (pattern, replacement). re_sub pattern True (\<lambda>m. replacement) norm)
                          norm0 EXPANSIONS;
                norm2 = re_sub decimal_re False (\<lambda>m. mgroup m 1) norm1;
                norm = re_sub slash_re False (\<lambda>m. mgroup m 1 @ '' '' @ mgroup m 2) norm2;
                als = map (\<lambda>m. upper (mgroup m 1))
                        (filter (\<lambda>m. let code = remove_char CHR ''-'' (upper (mgroup m 1))
                                      in code \<in> set KNOWN_ALLOYS \<or> 3 \<le> length code)
                           (finditer ALLOY_PATTERN True norm));
                raw_tokens = map m_text (finditer token_re False norm)
            in pq\<lparr>diameters := ds, pkg_weights := ws, pkg_types := ts, normalized := norm,
                  alloys := als,
                  tokens := filter (\<lambda>t. t \<notin> set STOP_WORDS \<and> 0 < length t) raw_tokens\<rparr>))"

text \<open>
  The two similarity measures of the library rapidfuzz are not part of the program: they are
  a parameter of the ranker, read as functions from two strings to a number.
\<close>

record fuzz =
  token_set_ratio :: "string \<Rightarrow> string \<Rightarrow> rat"
  partial_ratio :: "string \<Rightarrow> string \<Rightarrow> rat"

definition combined_text :: "string \<Rightarrow> string \<Rightarrow> string \<Rightarrow> string" where
  "combined_text desc pn enriched = upper desc @ '' '' @ upper pn @ '' '' @ upper enriched"

definition n_tokens :: "parsed_query \<Rightarrow> nat" where
  "n_tokens pq = max (length (tokens pq)) 1"

definition token_ratio :: "parsed_query \<Rightarrow> string \<Rightarrow> rat" where
  "token_ratio pq combined =
     of_nat (length (filter (\<lambda>token. contains combined token) (tokens pq))) / of_nat (n_tokens pq)"

definition fuzzy_best :: "fuzz \<Rightarrow> parsed_query \<Rightarrow> string \<Rightarrow> string \<Rightarrow> string \<Rightarrow> rat" where
  "fuzzy_best fz pq desc pn enriched =
     (let desc_fuzzy = token_set_ratio fz (normalized pq) (upper desc);
          pn_fuzzy = partial_ratio fz (normalized pq) (upper pn);
          enriched_fuzzy = (if upper enriched \<noteq> []
                            then token_set_ratio fz (normalized pq) (upper enriched) else 0)
      in max (max desc_fuzzy pn_fuzzy) enriched_fuzzy)"

definition coverage :: "parsed_query \<Rightarrow> string \<Rightarrow> rat" where
  "coverage pq desc =
     (let desc_tokens = map m_text (finditer token_re False (upper desc))
      in min (of_nat (n_tokens pq) / of_nat (max (length desc_tokens) 1)) 1)"

definition base_score :: "fuzz \<Rightarrow> parsed_query \<Rightarrow> string \<Rightarrow> string \<Rightarrow> string \<Rightarrow> rat" where
  "base_score fz pq desc pn enriched =
     token_ratio pq (combined_text desc pn enriched) * 45
     + fuzzy_best fz pq desc pn enriched / 100 * 30
     + coverage pq desc * 15"

definition diameter_bonus :: "parsed_query \<Rightarrow> string \<Rightarrow> rat" where
  "diameter_bonus pq combined =
     (if diameters pq \<noteq> []
      then (if \<exists>d \<in> set (diameters pq). contains combined d then 15 else - 10)
      else 0)"

definition alloy_bonus :: "parsed_query \<Rightarrow> string \<Rightarrow> rat" where
  "alloy_bonus pq combined =
     (if alloys pq \<noteq> []
      then (if \<exists>a \<in> set (alloys pq).
                 contains (remove_char CHR ''-'' combined) (remove_char CHR ''-'' a)
            then 12 else - 8)
      else 0)"

definition pkg_weight_bonus :: "parsed_query \<Rightarrow> string \<Rightarrow> rat" where
  "pkg_weight_bonus pq combined =
     (if pkg_weights pq \<noteq> []
         \<and> (\<exists>w \<in> set (pkg_weights pq).
               contains combined (w @ ''F'') \<or> contains combined (w @ ''LB'')
               \<or> contains combined (w @ '' LB''))
      then 8 else 0)"

definition pkg_type_bonus :: "parsed_query \<Rightarrow> string \<Rightarrow> rat" where
  "pkg_type_bonus pq combined =
     (if pkg_types pq \<noteq> [] \<and> (\<exists>t \<in> set (pkg_types pq). contains combined t) then 5 else 0)"

definition all_tokens_bonus :: "parsed_query \<Rightarrow> string \<Rightarrow> rat" where
  "all_tokens_bonus pq combined = (if token_ratio pq combined = 1 then 8 else 0)"

definition adjusted_score :: "fuzz \<Rightarrow> parsed_query \<Rightarrow> string \<Rightarrow> string \<Rightarrow> string \<Rightarrow> rat" where
  \<comment> \<open>the score after the five bonuses, before the exact-match override and the clamp\<close>
  "adjusted_score fz pq desc pn enriched =
     (let combined = combined_text desc pn enriched
      in base_score fz pq desc pn enriched
         + diameter_bonus pq combined
         + alloy_bonus pq combined
         + pkg_weight_bonus pq combined
         + pkg_type_bonus pq combined
         + all_tokens_bonus pq combined)"

definition exact_part_number :: "parsed_query \<Rightarrow> string \<Rightarrow> bool" where
  "exact_part_number pq pn =
     (remove_char CHR '' '' (normalized pq) = remove_char CHR '' '' (upper pn))"

definition score_item :: "fuzz \<Rightarrow> parsed_query \<Rightarrow> string \<Rightarrow> string \<Rightarrow> string \<Rightarrow> rat" where
  "score_item fz pq desc pn enriched =
     (if token_ratio pq (combined_text desc pn enriched) = 0 then 0
      else
        (let score = (if exact_part_number pq pn then 100
                      else adjusted_score fz pq desc pn enriched)
         in max (min score 100) 0))"

text \<open>
  A row of the catalog partition, with the columns the search reads; \<open>c_enriched_description\<close>
  is \<open>None\<close> where the column is missing or the cell is empty (\<open>fillna("")\<close>).
\<close>

record catalog_row =
  c_part_number :: string
  c_description :: string
  c_enriched_description :: "string option"

definition enriched_of :: "catalog_row \<Rightarrow> string" where
  "enriched_of row = (case c_enriched_description row of None \<Rightarrow> [] | Some e \<Rightarrow> e)"

definition head :: "int \<Rightarrow> 'a list \<Rightarrow> 'a list" where
  \<comment> \<open>\<open>DataFrame.head(n)\<close>: the first \<open>n\<close> rows; for a negative \<open>n\<close>, all but the last
      \<open>-n\<close> rows\<close>
  "head n xs = (if 0 \<le> n then take (nat n) xs else take (length xs - nat (- n)) xs)"

definition sort_values_desc :: "(nat \<Rightarrow> nat) \<Rightarrow> ('a \<times> rat) list \<Rightarrow> ('a \<times> rat) list" where
  \<comment> \<open>\<open>sort_values("match_score", ascending=False)\<close> with the default \<open>kind="quicksort"\<close>,
      which pandas documents as not stable: the rows come in non-increasing order of
      score, and the order among rows of equal score is left to the library. The parameter
      \<open>tie\<close> stands for that choice: rows of equal score come in the order of \<open>tie\<close> of
      their positions (for a constant \<open>tie\<close>, in the order of the input)\<close>
  "sort_values_desc tie rows =
     map snd (sort_key (\<lambda>(i, row, score). (- score, tie i)) (enumerate 0 rows))"

definition search_products ::
  "fuzz \<Rightarrow> (nat \<Rightarrow> nat) \<Rightarrow> string \<Rightarrow> catalog_row list \<Rightarrow> int \<Rightarrow> rat \<Rightarrow> (catalog_row \<times> rat) list" where
  "search_products fz tie query master_df max_results min_score =
     (if master_df = [] \<or> strip query = [] then []
      else
        (let pq = parse_query query
         in if tokens pq = [] then []
            else
              (let scores = map (\<lambda>row. score_item fz pq (c_description row) (c_part_number row)
                                          (enriched_of row)) master_df;
                   result0 = zip master_df scores;
                   result1 = filter (\<lambda>(row, score). min_score \<le> score) result0;
                   result2 = sort_values_desc tie result1
               in head max_results result2)))"

section \<open>pricing.py\<close>

definition py_round :: "rat \<Rightarrow> int" where
  \<comment> \<open>\<open>round(x)\<close>: to the nearest integer, a tie to the even one\<close>
  "py_round x =
     (let f = \<lfloor>x\<rfloor>; d = x - of_int f
      in if d < 1 / 2 then f else if 1 / 2 < d then f + 1 else if even f then f else f + 1)"

definition round4 :: "rat \<Rightarrow> rat" where
  \<comment> \<open>\<open>round(x, 4)\<close>\<close>
  "round4 x = of_int (py_round (x * 10000)) / 10000"

record price_entry =
  price :: rat
  source :: string
  surcharges :: rat
  total :: rat
  context_label :: string
  source_file :: string

definition PriceEntry :: "rat \<Rightarrow> string \<Rightarrow> rat \<Rightarrow> string \<Rightarrow> string \<Rightarrow> price_entry" where
  \<comment> \<open>the dataclass constructor with its \<open>__post_init__\<close>; the field \<open>context\<close> of the
      source is \<open>context_label\<close> here\<close>
  "PriceEntry p src sur ctx sf =
     \<lparr>price = p, source = src, surcharges = sur, total = round4 (p + sur),
      context_label = ctx, source_file = sf\<rparr>"

record product_pricing =
  pp_part_number :: string
  pp_description :: string
  pp_uom :: string
  pp_package_qty :: "rat option"
  pp_weight :: "rat option"
  pp_upc :: string
  best_price :: "price_entry option"
  all_prices :: "price_entry list"

text \<open>
  A row of a distributor's master table, and a row of its end-user or location table, with
  the columns \<open>get_pricing\<close> reads. A numeric cell that is NaN is \<open>None\<close>; the loader
  fills the two surcharge columns with 0, so they are plain numbers.
\<close>

record master_row =
  m_part_number :: string
  m_description :: string
  m_uom :: string
  m_package_qty :: "rat option"
  m_weight :: "rat option"
  m_list_price :: "rat option"
  m_tier_price :: "rat option"
  m_upc :: string
  m_source_file :: string

record special_row =
  s_part_number :: string
  s_description :: string
  s_uom :: string
  s_price :: "rat option"
  s_alloy_surcharge :: rat
  s_tariff_surcharge :: rat
  s_customer_name :: string
  s_end_user_name :: string
  s_city :: string
  s_state :: string
  s_source_file :: string

record price_data =
  master :: "string \<rightharpoonup> master_row list"
  end_user :: "string \<rightharpoonup> special_row list"
  location :: "string \<rightharpoonup> special_row list"

definition get_frame :: "(string \<rightharpoonup> 'a list) \<Rightarrow> string \<Rightarrow> 'a list" where
  \<comment> \<open>\<open>d.get(distributor_key, pd.DataFrame())\<close>\<close>
  "get_frame d k = (case d k of None \<Rightarrow> [] | Some rows \<Rightarrow> rows)"

definition truthy :: "string option \<Rightarrow> bool" where
  \<comment> \<open>the truth value of an optional string: neither \<open>None\<close> nor empty\<close>
  "truthy s = (case s of None \<Rightarrow> False | Some v \<Rightarrow> v \<noteq> [])"

definition add_price :: "product_pricing \<Rightarrow> price_entry \<Rightarrow> product_pricing" where
  \<comment> \<open>\<open>result.all_prices.append(e)\<close>\<close>
  "add_price result e = result\<lparr>all_prices := all_prices result @ [e]\<rparr>"

definition master_step :: "product_pricing \<Rightarrow> master_row \<Rightarrow> product_pricing" where
  \<comment> \<open>the body of the loop over the master rows of the part\<close>
  "master_step result row =
     (let r1 = (if pp_description result = []
                then result\<lparr>pp_description := m_description row, pp_uom := m_uom row,
                            pp_package_qty := m_package_qty row, pp_weight := m_weight row,
                            pp_upc := m_upc row\<rparr>
                else result);
          r2 = (case m_list_price row of
                  None \<Rightarrow> r1
                | Some list_p \<Rightarrow>
                    if 0 < list_p
                    then add_price r1 (PriceEntry list_p ''Master List'' 0 [] (m_source_file row))
                    else r1)
      in (case m_tier_price row of
            None \<Rightarrow> r2
          | Some tier_p \<Rightarrow>
              if 0 < tier_p
              then add_price r2 (PriceEntry tier_p ''Master Tier'' 0 [] (m_source_file row))
              else r2))"

definition special_entry :: "string \<Rightarrow> string \<Rightarrow> product_pricing \<Rightarrow> special_row \<Rightarrow> product_pricing" where
  \<comment> \<open>the common tail of the end-user and location loops, after the filter\<close>
  "special_entry src ctx result row =
     (let r1 = (if pp_description result = []
                then result\<lparr>pp_description := s_description row, pp_uom := s_uom row\<rparr>
                else result)
      in (case s_price row of
            None \<Rightarrow> r1
          | Some price_val \<Rightarrow>
              if 0 < price_val
              then add_price r1
                     (PriceEntry price_val src (s_alloy_surcharge row + s_tariff_surcharge row)
                        ctx (s_source_file row))
              else r1))"

definition end_user_step :: "string option \<Rightarrow> product_pricing \<Rightarrow> special_row \<Rightarrow> product_pricing" where
  "end_user_step selected_end_user result row =
     (let eu_name = strip (s_end_user_name row);
          cust_name = strip (s_customer_name row);
          ctx = (if eu_name \<noteq> [] \<and> eu_name \<noteq> ''nan'' then eu_name else cust_name)
      in if truthy selected_end_user
            \<and> Some ctx \<noteq> selected_end_user \<and> Some eu_name \<noteq> selected_end_user
            \<and> Some cust_name \<noteq> selected_end_user
         then result
         else special_entry ''End User'' ctx result row)"

definition location_context :: "special_row \<Rightarrow> string" where
  "location_context row =
     (let cust = strip (s_customer_name row);
          city = strip (s_city row);
          state = strip (s_state row);
          p1 = (if cust \<noteq> [] \<and> cust \<noteq> ''nan'' then [cust] else []);
          loc_parts =
            (if city \<noteq> [] \<and> city \<noteq> ''nan'' \<and> state \<noteq> [] \<and> state \<noteq> ''nan''
             then p1 @ [city @ '', '' @ state]
             else if city \<noteq> [] \<and> city \<noteq> ''nan'' then p1 @ [city]
             else p1)
      in if loc_parts \<noteq> [] then join '' -- '' loc_parts else [])"

definition location_step :: "string option \<Rightarrow> product_pricing \<Rightarrow> special_row \<Rightarrow> product_pricing" where
  "location_step selected_location result row =
     (let ctx = location_context row
      in if truthy selected_location \<and> Some ctx \<noteq> selected_location
         then result
         else special_entry ''Location Special'' ctx result row)"

definition precedence :: "string \<Rightarrow> nat" where
  \<comment> \<open>\<open>precedence.get(p.source, 99)\<close>\<close>
  "precedence src =
     (if src = ''Location Special'' then 1
      else if src = ''End User'' then 2
      else if src = ''Master Tier'' then 3
      else if src = ''Master List'' then 4
      else 99)"

definition sort_prices :: "price_entry list \<Rightarrow> price_entry list" where
  \<comment> \<open>\<open>all_prices.sort(key=lambda p: (precedence.get(p.source, 99), p.total))\<close>:
      Python's sort is stable, as \<open>sort_key\<close> is\<close>
  "sort_prices ps = sort_key (\<lambda>p. (precedence (source p), total p)) ps"

definition collect_prices ::
  "string \<Rightarrow> string \<Rightarrow> price_data \<Rightarrow> string option \<Rightarrow> string option \<Rightarrow> product_pricing" where
  \<comment> \<open>\<open>get_pricing\<close> up to the three loops, before the best price is chosen\<close>
  "collect_prices part_number distributor_key pd selected_end_user selected_location =
     (let result0 = \<lparr>pp_part_number = part_number, pp_description = [], pp_uom = [],
                      pp_package_qty = None, pp_weight = None, pp_upc = [],
                      best_price = None, all_prices = []\<rparr>;
          pn = strip part_number;
          master_df = get_frame (master pd) distributor_key;
          result1 = (if master_df \<noteq> []
                     then foldl master_step result0
                            (filter (\<lambda>row. m_part_number row = pn) master_df)
                     else result0);
          eu_df = get_frame (end_user pd) distributor_key;
          result2 = (if eu_df \<noteq> []
                     then foldl (end_user_step selected_end_user) result1
                            (filter (\<lambda>row. s_part_number row = pn) eu_df)
                     else result1);
          loc_df = get_frame (location pd) distributor_key
      in if loc_df \<noteq> []
         then foldl (location_step selected_location) result2
                (filter (\<lambda>row. s_part_number row = pn) loc_df)
         else result2)"

definition get_pricing ::
  "string \<Rightarrow> string \<Rightarrow> price_data \<Rightarrow> string option \<Rightarrow> string option \<Rightarrow> product_pricing" where
  "get_pricing part_number distributor_key pd selected_end_user selected_location =
     (let result = collect_prices part_number distributor_key pd selected_end_user selected_location
      in if all_prices result \<noteq> []
         then (let sorted_prices = sort_prices (all_prices result)
               in result\<lparr>best_price := Some (hd sorted_prices), all_prices := sorted_prices\<rparr>)
         else result)"

subsection \<open>Properties of the price resolver\<close>

definition rank_key :: "price_entry \<Rightarrow> nat \<times> rat" where
  \<comment> \<open>the sort key of \<open>get_pricing\<close>, ordered lexicographically\<close>
  "rank_key p = (precedence (source p), total p)"

definition positive :: "rat option \<Rightarrow> bool" where
  \<comment> \<open>\<open>pd.notna(v) and float(v) > 0\<close>\<close>
  "positive p = (case p of None \<Rightarrow> False | Some v \<Rightarrow> 0 < v)"

definition no_positive_price :: "string \<Rightarrow> string \<Rightarrow> price_data \<Rightarrow> bool" where
  \<comment> \<open>no row of the part, in any of the distributor's three tables, has a positive price\<close>
  "no_positive_price part_number distributor_key pd =
     ((\<forall>row \<in> set (get_frame (master pd) distributor_key).
         m_part_number row = strip part_number \<longrightarrow>
           \<not> positive (m_list_price row) \<and> \<not> positive (m_tier_price row))
      \<and> (\<forall>row \<in> set (get_frame (end_user pd) distributor_key).
         s_part_number row = strip part_number \<longrightarrow> \<not> positive (s_price row))
      \<and> (\<forall>row \<in> set (get_frame (location pd) distributor_key).
         s_part_number row = strip part_number \<longrightarrow> \<not> positive (s_price row)))"

definition prices_positive :: "product_pricing \<Rightarrow> bool" where
  "prices_positive r = (\<forall>e \<in> set (all_prices r). 0 < price e)"

definition no_prices :: "product_pricing \<Rightarrow> bool" where
  "no_prices r = (all_prices r = [] \<and> best_price r = None)"

text \<open>The data of the specification's example: one master row, one end-user row for Acme.\<close>

definition example_master_row :: master_row where
  "example_master_row =
     \<lparr>m_part_number = ''P1'', m_description = ''WELD 70S 6 045X44F'', m_uom = ''LB'',
      m_package_qty = None, m_weight = None, m_list_price = Some 10, m_tier_price = Some 9,
      m_upc = [], m_source_file = ''master.xlsx''\<rparr>"

definition example_end_user_row :: special_row where
  "example_end_user_row =
     \<lparr>s_part_number = ''P1'', s_description = ''WELD 70S 6 045X44F'', s_uom = ''LB'',
      s_price = Some (17 / 2), s_alloy_surcharge = 0, s_tariff_surcharge = 0,
      s_customer_name = [], s_end_user_name = ''Acme'', s_city = [], s_state = [],
      s_source_file = ''eu.xlsx''\<rparr>"

definition example_price_data :: price_data where
  "example_price_data =
     \<lparr>master = [''D'' \<mapsto> [example_master_row]],
      end_user = [''D'' \<mapsto> [example_end_user_row]],
      location = Map.empty\<rparr>"

text \<open>A part whose only rows carry no price, a zero price and a negative price.\<close>

definition unpriced_price_data :: price_data where
  "unpriced_price_data =
     \<lparr>master = [''D'' \<mapsto> [example_master_row\<lparr>m_list_price := Some 0, m_tier_price := None\<rparr>]],
      end_user = [''D'' \<mapsto> [example_end_user_row\<lparr>s_price := Some (- 1)\<rparr>]],
      location = Map.empty\<rparr>"

lemma foldl_invariant:
  "P r \<Longrightarrow> (\<And>r x. P r \<Longrightarrow> x \<in> set xs \<Longrightarrow> P (f r x)) \<Longrightarrow> P (foldl f r xs)"
  by (induction xs arbitrary: r) auto

lemma master_step_positive: "prices_positive r \<Longrightarrow> prices_positive (master_step r row)"
  by (auto simp: prices_positive_def master_step_def add_price_def PriceEntry_def Let_def
      split: option.splits)

lemma special_entry_positive:
  "prices_positive r \<Longrightarrow> prices_positive (special_entry src ctx r row)"
  by (auto simp: prices_positive_def special_entry_def add_price_def PriceEntry_def Let_def
      split: option.splits)

lemma end_user_step_positive: "prices_positive r \<Longrightarrow> prices_positive (end_user_step sel r row)"
  by (simp add: end_user_step_def Let_def special_entry_positive)

lemma location_step_positive: "prices_positive r \<Longrightarrow> prices_positive (location_step sel r row)"
  by (simp add: location_step_def Let_def special_entry_positive)

lemma collect_prices_positive: "prices_positive (collect_prices pn dk pd eu loc)"
proof -
  let ?r0 = "\<lparr>pp_part_number = pn, pp_description = [], pp_uom = [],
              pp_package_qty = None, pp_weight = None, pp_upc = [],
              best_price = None, all_prices = []\<rparr>"
  have 0: "prices_positive ?r0" by (simp add: prices_positive_def)
  have 1: "prices_positive (foldl master_step r xs)" if "prices_positive r" for r xs
    using that by (rule foldl_invariant) (rule master_step_positive)
  have 2: "prices_positive (foldl (end_user_step eu) r xs)" if "prices_positive r" for r xs
    using that by (rule foldl_invariant) (rule end_user_step_positive)
  have 3: "prices_positive (foldl (location_step loc) r xs)" if "prices_positive r" for r xs
    using that by (rule foldl_invariant) (rule location_step_positive)
  show ?thesis
    unfolding collect_prices_def Let_def using 0 1 2 3 by simp
qed

lemma get_pricing_positive: "prices_positive (get_pricing pn dk pd eu loc)"
  using collect_prices_positive [of pn dk pd eu loc]
  by (simp add: get_pricing_def Let_def prices_positive_def sort_prices_def)

lemma master_step_none:
  "no_prices r \<Longrightarrow> \<not> positive (m_list_price row) \<Longrightarrow> \<not> positive (m_tier_price row)
   \<Longrightarrow> no_prices (master_step r row)"
  by (auto simp: no_prices_def master_step_def positive_def Let_def split: option.splits)

lemma special_entry_none:
  "no_prices r \<Longrightarrow> \<not> positive (s_price row) \<Longrightarrow> no_prices (special_entry src ctx r row)"
  by (auto simp: no_prices_def special_entry_def positive_def Let_def split: option.splits)

lemma end_user_step_none:
  "no_prices r \<Longrightarrow> \<not> positive (s_price row) \<Longrightarrow> no_prices (end_user_step sel r row)"
  by (simp add: end_user_step_def Let_def special_entry_none)

lemma location_step_none:
  "no_prices r \<Longrightarrow> \<not> positive (s_price row) \<Longrightarrow> no_prices (location_step sel r row)"
  by (simp add: location_step_def Let_def special_entry_none)

lemma collect_prices_none:
  assumes "no_positive_price pn dk pd"
  shows "no_prices (collect_prices pn dk pd eu loc)"
proof -
  let ?r0 = "\<lparr>pp_part_number = pn, pp_description = [], pp_uom = [],
              pp_package_qty = None, pp_weight = None, pp_upc = [],
              best_price = None, all_prices = []\<rparr>"
  let ?ms = "filter (\<lambda>row. m_part_number row = strip pn) (get_frame (master pd) dk)"
  let ?es = "filter (\<lambda>row. s_part_number row = strip pn) (get_frame (end_user pd) dk)"
  let ?ls = "filter (\<lambda>row. s_part_number row = strip pn) (get_frame (location pd) dk)"
  have 0: "no_prices ?r0" by (simp add: no_prices_def)
  have 1: "no_prices (foldl master_step r ?ms)" if "no_prices r" for r
    using that assms
    by (rule_tac foldl_invariant) (auto simp: no_positive_price_def intro: master_step_none)
  have 2: "no_prices (foldl (end_user_step eu) r ?es)" if "no_prices r" for r
    using that assms
    by (rule_tac foldl_invariant) (auto simp: no_positive_price_def intro: end_user_step_none)
  have 3: "no_prices (foldl (location_step loc) r ?ls)" if "no_prices r" for r
    using that assms
    by (rule_tac foldl_invariant) (auto simp: no_positive_price_def intro: location_step_none)
  show ?thesis
    unfolding collect_prices_def Let_def using 0 1 2 3 by simp
qed

lemma round4_simps: "round4 10 = 10" "round4 9 = 9" "round4 (17 / 2) = 17 / 2"
  by (simp_all add: round4_def py_round_def Let_def)

lemma strip_simps: "strip ''P1'' = ''P1''" "strip ''Acme'' = ''Acme''" "strip [] = []"
  by (simp_all add: strip_def lstrip_def rstrip_def is_space_def whitespace_def)

lemma example_collect:
  "all_prices (collect_prices ''P1'' ''D'' example_price_data None None) =
     [PriceEntry 10 ''Master List'' 0 [] ''master.xlsx'',
      PriceEntry 9 ''Master Tier'' 0 [] ''master.xlsx'',
      PriceEntry (17 / 2) ''End User'' 0 ''Acme'' ''eu.xlsx'']"
  by (simp add: collect_prices_def example_price_data_def example_master_row_def
      example_end_user_row_def get_frame_def master_step_def end_user_step_def special_entry_def
      add_price_def truthy_def strip_simps Let_def)

lemma example_sorted:
  "sort_prices [PriceEntry 10 ''Master List'' 0 [] ''master.xlsx'',
      PriceEntry 9 ''Master Tier'' 0 [] ''master.xlsx'',
      PriceEntry (17 / 2) ''End User'' 0 ''Acme'' ''eu.xlsx''] =
     [PriceEntry (17 / 2) ''End User'' 0 ''Acme'' ''eu.xlsx'',
      PriceEntry 9 ''Master Tier'' 0 [] ''master.xlsx'',
      PriceEntry 10 ''Master List'' 0 [] ''master.xlsx'']"
  by (simp add: sort_prices_def PriceEntry_def precedence_def round4_simps)

lemma example_pricing:
  "all_prices (get_pricing ''P1'' ''D'' example_price_data None None) =
     [PriceEntry (17 / 2) ''End User'' 0 ''Acme'' ''eu.xlsx'',
      PriceEntry 9 ''Master Tier'' 0 [] ''master.xlsx'',
      PriceEntry 10 ''Master List'' 0 [] ''master.xlsx'']
   \<and> best_price (get_pricing ''P1'' ''D'' example_price_data None None) =
     Some (PriceEntry (17 / 2) ''End User'' 0 ''Acme'' ''eu.xlsx'')"
  by (simp add: get_pricing_def Let_def example_collect example_sorted)

lemma sort_key_hd_least:
  fixes f :: "'a \<Rightarrow> 'b::linorder"
  assumes "xs \<noteq> []" "e \<in> set xs"
  shows "f (hd (sort_key f xs)) \<le> f e"
proof -
  have s: "sorted (map f (sort_key f xs))" by simp
  have ne: "sort_key f xs \<noteq> []" using assms(1) by (metis length_sort length_0_conv)
  then obtain y ys where eq: "sort_key f xs = y # ys" by (cases "sort_key f xs") auto
  have "e \<in> set (sort_key f xs)" using assms(2) by simp
  with s eq show ?thesis by auto
qed

lemma get_pricing_best:
  assumes "all_prices (get_pricing pn dk pd eu loc) \<noteq> []"
  shows "best_price (get_pricing pn dk pd eu loc) =
           Some (hd (all_prices (get_pricing pn dk pd eu loc)))"
    and "\<forall>e \<in> set (all_prices (get_pricing pn dk pd eu loc)).
           rank_key (hd (all_prices (get_pricing pn dk pd eu loc))) \<le> rank_key e"
proof -
  let ?c = "collect_prices pn dk pd eu loc"
  have ne: "all_prices ?c \<noteq> []"
    using assms by (auto simp: get_pricing_def Let_def split: if_splits)
  then have ap: "all_prices (get_pricing pn dk pd eu loc) = sort_prices (all_prices ?c)"
    and bp: "best_price (get_pricing pn dk pd eu loc) = Some (hd (sort_prices (all_prices ?c)))"
    by (simp_all add: get_pricing_def Let_def)
  show "best_price (get_pricing pn dk pd eu loc) =
          Some (hd (all_prices (get_pricing pn dk pd eu loc)))"
    by (simp add: ap bp)
  show "\<forall>e \<in> set (all_prices (get_pricing pn dk pd eu loc)).
          rank_key (hd (all_prices (get_pricing pn dk pd eu loc))) \<le> rank_key e"
    unfolding ap sort_prices_def using sort_key_hd_least [OF ne, of _ rank_key]
    by (simp add: rank_key_def [abs_def])
qed

lemma rank_key_le:
  "rank_key b \<le> rank_key e \<longleftrightarrow>
     precedence (source b) < precedence (source e)
     \<or> (precedence (source b) = precedence (source e) \<and> total b \<le> total e)"
  by (auto simp: rank_key_def less_eq_prod_def)

text \<open>
  Claim C2. Whenever \<open>get_pricing\<close> returns at least one entry, it returns a best entry,
  which is an entry of the list; its precedence rank (Location Special 1, End User 2,
  Master Tier 3, Master List 4) is at most the rank of every entry, and among the entries
  of its rank its total is the least. On the specification's example (Master List 10,
  Master Tier 9, End User Acme 8.50, no filter) the list is End User, Master Tier, Master
  List, in this order, and the best entry is the End User entry at 8.50.
\<close>

theorem get_pricing_best_precedence:
  "(all_prices (get_pricing pn dk pd eu loc) \<noteq> [] \<longrightarrow>
      (\<exists>b. best_price (get_pricing pn dk pd eu loc) = Some b
         \<and> b \<in> set (all_prices (get_pricing pn dk pd eu loc))
         \<and> (\<forall>e \<in> set (all_prices (get_pricing pn dk pd eu loc)).
              precedence (source b) \<le> precedence (source e)
              \<and> (precedence (source e) = precedence (source b) \<longrightarrow> total b \<le> total e))))
   \<and> precedence ''Location Special'' = 1 \<and> precedence ''End User'' = 2
   \<and> precedence ''Master Tier'' = 3 \<and> precedence ''Master List'' = 4
   \<and> all_prices (get_pricing ''P1'' ''D'' example_price_data None None) =
       [PriceEntry (17 / 2) ''End User'' 0 ''Acme'' ''eu.xlsx'',
        PriceEntry 9 ''Master Tier'' 0 [] ''master.xlsx'',
        PriceEntry 10 ''Master List'' 0 [] ''master.xlsx'']
   \<and> best_price (get_pricing ''P1'' ''D'' example_price_data None None) =
       Some (PriceEntry (17 / 2) ''End User'' 0 ''Acme'' ''eu.xlsx'')"
proof -
  let ?r = "get_pricing pn dk pd eu loc"
  have general: "\<exists>b. best_price ?r = Some b \<and> b \<in> set (all_prices ?r)
         \<and> (\<forall>e \<in> set (all_prices ?r).
              precedence (source b) \<le> precedence (source e)
              \<and> (precedence (source e) = precedence (source b) \<longrightarrow> total b \<le> total e))"
    if ne: "all_prices ?r \<noteq> []"
  proof -
    let ?b = "hd (all_prices ?r)"
    have b: "best_price ?r = Some ?b" using get_pricing_best(1) [OF ne] .
    have least: "\<forall>e \<in> set (all_prices ?r). rank_key ?b \<le> rank_key e"
      using get_pricing_best(2) [OF ne] .
    have mem: "?b \<in> set (all_prices ?r)" using ne by simp
    have "\<forall>e \<in> set (all_prices ?r).
            precedence (source ?b) \<le> precedence (source e)
            \<and> (precedence (source e) = precedence (source ?b) \<longrightarrow> total ?b \<le> total e)"
      using least by (auto simp: rank_key_le)
    with b mem show ?thesis by blast
  qed
  have ranks: "precedence ''Location Special'' = 1" "precedence ''End User'' = 2"
    "precedence ''Master Tier'' = 3" "precedence ''Master List'' = 4"
    by (simp_all add: precedence_def)
  show ?thesis using general ranks example_pricing by blast
qed

theorem get_pricing_best_precedence_witness:
  "all_prices (get_pricing ''P1'' ''D'' example_price_data None None) \<noteq> []
   \<and> (\<exists>b. best_price (get_pricing ''P1'' ''D'' example_price_data None None) = Some b
        \<and> b \<in> set (all_prices (get_pricing ''P1'' ''D'' example_price_data None None))
        \<and> precedence (source b) = 2 \<and> total b = 17 / 2)"
proof -
  have ne: "all_prices (get_pricing ''P1'' ''D'' example_price_data None None) \<noteq> []"
    using example_pricing by simp
  have "best_price (get_pricing ''P1'' ''D'' example_price_data None None) =
          Some (PriceEntry (17 / 2) ''End User'' 0 ''Acme'' ''eu.xlsx'')"
    using example_pricing by simp
  moreover have "precedence (source (PriceEntry (17 / 2) ''End User'' 0 ''Acme'' ''eu.xlsx'')) = 2"
    "total (PriceEntry (17 / 2) ''End User'' 0 ''Acme'' ''eu.xlsx'') = 17 / 2"
    by (simp_all add: PriceEntry_def precedence_def round4_simps)
  ultimately show ?thesis
    using ne get_pricing_best_precedence [of "''P1''" "''D''" example_price_data None None]
    by auto
qed

text \<open>
  Claim C6. If no row of the part has a strictly positive price (in the master, end-user
  and location tables of the distributor), \<open>get_pricing\<close> returns no best entry and an empty
  list; and every entry \<open>get_pricing\<close> ever returns has a price above zero.
\<close>

theorem get_pricing_no_positive_price:
  "(no_positive_price pn dk pd \<longrightarrow>
      best_price (get_pricing pn dk pd eu loc) = None
      \<and> all_prices (get_pricing pn dk pd eu loc) = [])
   \<and> (\<forall>e \<in> set (all_prices (get_pricing pn dk pd eu loc)). 0 < price e)"
proof (intro conjI impI)
  assume "no_positive_price pn dk pd"
  then have "no_prices (collect_prices pn dk pd eu loc)" by (rule collect_prices_none)
  then show "best_price (get_pricing pn dk pd eu loc) = None"
    and "all_prices (get_pricing pn dk pd eu loc) = []"
    by (simp_all add: get_pricing_def no_prices_def Let_def)
next
  show "\<forall>e \<in> set (all_prices (get_pricing pn dk pd eu loc)). 0 < price e"
    using get_pricing_positive [of pn dk pd eu loc] by (simp add: prices_positive_def)
qed

theorem get_pricing_no_positive_price_witness:
  "no_positive_price ''P1'' ''D'' unpriced_price_data
   \<and> best_price (get_pricing ''P1'' ''D'' unpriced_price_data None None) = None
   \<and> all_prices (get_pricing ''P1'' ''D'' unpriced_price_data None None) = []
   \<and> price (hd (all_prices (get_pricing ''P1'' ''D'' example_price_data None None))) = 17 / 2
   \<and> 0 < price (hd (all_prices (get_pricing ''P1'' ''D'' example_price_data None None)))"
proof -
  have h: "no_positive_price ''P1'' ''D'' unpriced_price_data"
    by (simp add: no_positive_price_def unpriced_price_data_def get_frame_def positive_def
        example_master_row_def example_end_user_row_def)
  have m: "hd (all_prices (get_pricing ''P1'' ''D'' example_price_data None None))
             \<in> set (all_prices (get_pricing ''P1'' ''D'' example_price_data None None))"
    using example_pricing by simp
  have p: "price (hd (all_prices (get_pricing ''P1'' ''D'' example_price_data None None))) = 17 / 2"
    using example_pricing by (simp add: PriceEntry_def)
  show ?thesis
    using h m p
      get_pricing_no_positive_price [of "''P1''" "''D''" unpriced_price_data None None]
      get_pricing_no_positive_price [of "''P1''" "''D''" example_price_data None None]
    by simp
qed
section \<open>Evaluation of the character classes\<close>

lemma is_space_simps:
  "is_space (CHR '' '')" "\<not> is_space (CHR ''!'')" "\<not> is_space (CHR 0x22)"
  "\<not> is_space (CHR ''#'')" "\<not> is_space (CHR ''$'')" "\<not> is_space (CHR ''%'')"
  "\<not> is_space (CHR ''&'')" "\<not> is_space (CHR 0x27)" "\<not> is_space (CHR ''('')"
  "\<not> is_space (CHR '')'')" "\<not> is_space (CHR ''*'')" "\<not> is_space (CHR ''+'')"
  "\<not> is_space (CHR '','')" "\<not> is_space (CHR ''-'')" "\<not> is_space (CHR ''.'')"
  "\<not> is_space (CHR ''/'')" "\<not> is_space (CHR ''0'')" "\<not> is_space (CHR ''1'')"
  "\<not> is_space (CHR ''2'')" "\<not> is_space (CHR ''3'')" "\<not> is_space (CHR ''4'')"
  "\<not> is_space (CHR ''5'')" "\<not> is_space (CHR ''6'')" "\<not> is_space (CHR ''7'')"
  "\<not> is_space (CHR ''8'')" "\<not> is_space (CHR ''9'')" "\<not> is_space (CHR '':'')"
  "\<not> is_space (CHR '';'')" "\<not> is_space (CHR ''<'')" "\<not> is_space (CHR ''='')"
  "\<not> is_space (CHR ''>'')" "\<not> is_space (CHR ''?'')" "\<not> is_space (CHR ''@'')"
  "\<not> is_space (CHR ''A'')" "\<not> is_space (CHR ''B'')" "\<not> is_space (CHR ''C'')"
  "\<not> is_space (CHR ''D'')" "\<not> is_space (CHR ''E'')" "\<not> is_space (CHR ''F'')"
  "\<not> is_space (CHR ''G'')" "\<not> is_space (CHR ''H'')" "\<not> is_space (CHR ''I'')"
  "\<not> is_space (CHR ''J'')" "\<not> is_space (CHR ''K'')" "\<not> is_space (CHR ''L'')"
  "\<not> is_space (CHR ''M'')" "\<not> is_space (CHR ''N'')" "\<not> is_space (CHR ''O'')"
  "\<not> is_space (CHR ''P'')" "\<not> is_space (CHR ''Q'')" "\<not> is_space (CHR ''R'')"
  "\<not> is_space (CHR ''S'')" "\<not> is_space (CHR ''T'')" "\<not> is_space (CHR ''U'')"
  "\<not> is_space (CHR ''V'')" "\<not> is_space (CHR ''W'')" "\<not> is_space (CHR ''X'')"
  "\<not> is_space (CHR ''Y'')" "\<not> is_space (CHR ''Z'')" "\<not> is_space (CHR ''['')"
  "\<not> is_space (CHR 0x5C)" "\<not> is_space (CHR '']'')" "\<not> is_space (CHR ''^'')"
  "\<not> is_space (CHR ''_'')" "\<not> is_space (CHR 0x60)" "\<not> is_space (CHR ''a'')"
  "\<not> is_space (CHR ''b'')" "\<not> is_space (CHR ''c'')" "\<not> is_space (CHR ''d'')"
  "\<not> is_space (CHR ''e'')" "\<not> is_space (CHR ''f'')" "\<not> is_space (CHR ''g'')"
  "\<not> is_space (CHR ''h'')" "\<not> is_space (CHR ''i'')" "\<not> is_space (CHR ''j'')"
  "\<not> is_space (CHR ''k'')" "\<not> is_space (CHR ''l'')" "\<not> is_space (CHR ''m'')"
  "\<not> is_space (CHR ''n'')" "\<not> is_space (CHR ''o'')" "\<not> is_space (CHR ''p'')"
  "\<not> is_space (CHR ''q'')" "\<not> is_space (CHR ''r'')" "\<not> is_space (CHR ''s'')"
  "\<not> is_space (CHR ''t'')" "\<not> is_space (CHR ''u'')" "\<not> is_space (CHR ''v'')"
  "\<not> is_space (CHR ''w'')" "\<not> is_space (CHR ''x'')" "\<not> is_space (CHR ''y'')"
  "\<not> is_space (CHR ''z'')" "\<not> is_space (CHR ''{'')" "\<not> is_space (CHR ''|'')"
  "\<not> is_space (CHR ''}'')" "\<not> is_space (CHR ''~'')" "is_space (CHR 0x09)"
  "is_space (CHR 0x0A)" "is_space (CHR 0x0D)"
  by (simp_all add: is_space_def whitespace_def)

lemma is_digit_simps:
  "\<not> is_digit (CHR '' '')" "\<not> is_digit (CHR ''!'')" "\<not> is_digit (CHR 0x22)"
  "\<not> is_digit (CHR ''#'')" "\<not> is_digit (CHR ''$'')" "\<not> is_digit (CHR ''%'')"
  "\<not> is_digit (CHR ''&'')" "\<not> is_digit (CHR 0x27)" "\<not> is_digit (CHR ''('')"
  "\<not> is_digit (CHR '')'')" "\<not> is_digit (CHR ''*'')" "\<not> is_digit (CHR ''+'')"
  "\<not> is_digit (CHR '','')" "\<not> is_digit (CHR ''-'')" "\<not> is_digit (CHR ''.'')"
  "\<not> is_digit (CHR ''/'')" "is_digit (CHR ''0'')" "is_digit (CHR ''1'')"
  "is_digit (CHR ''2'')" "is_digit (CHR ''3'')" "is_digit (CHR ''4'')" "is_digit (CHR ''5'')"
  "is_digit (CHR ''6'')" "is_digit (CHR ''7'')" "is_digit (CHR ''8'')" "is_digit (CHR ''9'')"
  "\<not> is_digit (CHR '':'')" "\<not> is_digit (CHR '';'')" "\<not> is_digit (CHR ''<'')"
  "\<not> is_digit (CHR ''='')" "\<not> is_digit (CHR ''>'')" "\<not> is_digit (CHR ''?'')"
  "\<not> is_digit (CHR ''@'')" "\<not> is_digit (CHR ''A'')" "\<not> is_digit (CHR ''B'')"
  "\<not> is_digit (CHR ''C'')" "\<not> is_digit (CHR ''D'')" "\<not> is_digit (CHR ''E'')"
  "\<not> is_digit (CHR ''F'')" "\<not> is_digit (CHR ''G'')" "\<not> is_digit (CHR ''H'')"
  "\<not> is_digit (CHR ''I'')" "\<not> is_digit (CHR ''J'')" "\<not> is_digit (CHR ''K'')"
  "\<not> is_digit (CHR ''L'')" "\<not> is_digit (CHR ''M'')" "\<not> is_digit (CHR ''N'')"
  "\<not> is_digit (CHR ''O'')" "\<not> is_digit (CHR ''P'')" "\<not> is_digit (CHR ''Q'')"
  "\<not> is_digit (CHR ''R'')" "\<not> is_digit (CHR ''S'')" "\<not> is_digit (CHR ''T'')"
  "\<not> is_digit (CHR ''U'')" "\<not> is_digit (CHR ''V'')" "\<not> is_digit (CHR ''W'')"
  "\<not> is_digit (CHR ''X'')" "\<not> is_digit (CHR ''Y'')" "\<not> is_digit (CHR ''Z'')"
  "\<not> is_digit (CHR ''['')" "\<not> is_digit (CHR 0x5C)" "\<not> is_digit (CHR '']'')"
  "\<not> is_digit (CHR ''^'')" "\<not> is_digit (CHR ''_'')" "\<not> is_digit (CHR 0x60)"
  "\<not> is_digit (CHR ''a'')" "\<not> is_digit (CHR ''b'')" "\<not> is_digit (CHR ''c'')"
  "\<not> is_digit (CHR ''d'')" "\<not> is_digit (CHR ''e'')" "\<not> is_digit (CHR ''f'')"
  "\<not> is_digit (CHR ''g'')" "\<not> is_digit (CHR ''h'')" "\<not> is_digit (CHR ''i'')"
  "\<not> is_digit (CHR ''j'')" "\<not> is_digit (CHR ''k'')" "\<not> is_digit (CHR ''l'')"
  "\<not> is_digit (CHR ''m'')" "\<not> is_digit (CHR ''n'')" "\<not> is_digit (CHR ''o'')"
  "\<not> is_digit (CHR ''p'')" "\<not> is_digit (CHR ''q'')" "\<not> is_digit (CHR ''r'')"
  "\<not> is_digit (CHR ''s'')" "\<not> is_digit (CHR ''t'')" "\<not> is_digit (CHR ''u'')"
  "\<not> is_digit (CHR ''v'')" "\<not> is_digit (CHR ''w'')" "\<not> is_digit (CHR ''x'')"
  "\<not> is_digit (CHR ''y'')" "\<not> is_digit (CHR ''z'')" "\<not> is_digit (CHR ''{'')"
  "\<not> is_digit (CHR ''|'')" "\<not> is_digit (CHR ''}'')" "\<not> is_digit (CHR ''~'')"
  "\<not> is_digit (CHR 0x09)" "\<not> is_digit (CHR 0x0A)" "\<not> is_digit (CHR 0x0D)"
  by (simp_all add: is_digit_def digits_def)

lemma is_upper_simps:
  "\<not> is_upper (CHR '' '')" "\<not> is_upper (CHR ''!'')" "\<not> is_upper (CHR 0x22)"
  "\<not> is_upper (CHR ''#'')" "\<not> is_upper (CHR ''$'')" "\<not> is_upper (CHR ''%'')"
  "\<not> is_upper (CHR ''&'')" "\<not> is_upper (CHR 0x27)" "\<not> is_upper (CHR ''('')"
  "\<not> is_upper (CHR '')'')" "\<not> is_upper (CHR ''*'')" "\<not> is_upper (CHR ''+'')"
  "\<not> is_upper (CHR '','')" "\<not> is_upper (CHR ''-'')" "\<not> is_upper (CHR ''.'')"
  "\<not> is_upper (CHR ''/'')" "\<not> is_upper (CHR ''0'')" "\<not> is_upper (CHR ''1'')"
  "\<not> is_upper (CHR ''2'')" "\<not> is_upper (CHR ''3'')" "\<not> is_upper (CHR ''4'')"
  "\<not> is_upper (CHR ''5'')" "\<not> is_upper (CHR ''6'')" "\<not> is_upper (CHR ''7'')"
  "\<not> is_upper (CHR ''8'')" "\<not> is_upper (CHR ''9'')" "\<not> is_upper (CHR '':'')"
  "\<not> is_upper (CHR '';'')" "\<not> is_upper (CHR ''<'')" "\<not> is_upper (CHR ''='')"
  "\<not> is_upper (CHR ''>'')" "\<not> is_upper (CHR ''?'')" "\<not> is_upper (CHR ''@'')"
  "is_upper (CHR ''A'')" "is_upper (CHR ''B'')" "is_upper (CHR ''C'')" "is_upper (CHR ''D'')"
  "is_upper (CHR ''E'')" "is_upper (CHR ''F'')" "is_upper (CHR ''G'')" "is_upper (CHR ''H'')"
  "is_upper (CHR ''I'')" "is_upper (CHR ''J'')" "is_upper (CHR ''K'')" "is_upper (CHR ''L'')"
  "is_upper (CHR ''M'')" "is_upper (CHR ''N'')" "is_upper (CHR ''O'')" "is_upper (CHR ''P'')"
  "is_upper (CHR ''Q'')" "is_upper (CHR ''R'')" "is_upper (CHR ''S'')" "is_upper (CHR ''T'')"
  "is_upper (CHR ''U'')" "is_upper (CHR ''V'')" "is_upper (CHR ''W'')" "is_upper (CHR ''X'')"
  "is_upper (CHR ''Y'')" "is_upper (CHR ''Z'')" "\<not> is_upper (CHR ''['')"
  "\<not> is_upper (CHR 0x5C)" "\<not> is_upper (CHR '']'')" "\<not> is_upper (CHR ''^'')"
  "\<not> is_upper (CHR ''_'')" "\<not> is_upper (CHR 0x60)" "\<not> is_upper (CHR ''a'')"
  "\<not> is_upper (CHR ''b'')" "\<not> is_upper (CHR ''c'')" "\<not> is_upper (CHR ''d'')"
  "\<not> is_upper (CHR ''e'')" "\<not> is_upper (CHR ''f'')" "\<not> is_upper (CHR ''g'')"
  "\<not> is_upper (CHR ''h'')" "\<not> is_upper (CHR ''i'')" "\<not> is_upper (CHR ''j'')"
  "\<not> is_upper (CHR ''k'')" "\<not> is_upper (CHR ''l'')" "\<not> is_upper (CHR ''m'')"
  "\<not> is_upper (CHR ''n'')" "\<not> is_upper (CHR ''o'')" "\<not> is_upper (CHR ''p'')"
  "\<not> is_upper (CHR ''q'')" "\<not> is_upper (CHR ''r'')" "\<not> is_upper (CHR ''s'')"
  "\<not> is_upper (CHR ''t'')" "\<not> is_upper (CHR ''u'')" "\<not> is_upper (CHR ''v'')"
  "\<not> is_upper (CHR ''w'')" "\<not> is_upper (CHR ''x'')" "\<not> is_upper (CHR ''y'')"
  "\<not> is_upper (CHR ''z'')" "\<not> is_upper (CHR ''{'')" "\<not> is_upper (CHR ''|'')"
  "\<not> is_upper (CHR ''}'')" "\<not> is_upper (CHR ''~'')" "\<not> is_upper (CHR 0x09)"
  "\<not> is_upper (CHR 0x0A)" "\<not> is_upper (CHR 0x0D)"
  by (simp_all add: is_upper_def uppercase_def)

lemma is_word_simps:
  "\<not> is_word (CHR '' '')" "\<not> is_word (CHR ''!'')" "\<not> is_word (CHR 0x22)"
  "\<not> is_word (CHR ''#'')" "\<not> is_word (CHR ''$'')" "\<not> is_word (CHR ''%'')"
  "\<not> is_word (CHR ''&'')" "\<not> is_word (CHR 0x27)" "\<not> is_word (CHR ''('')"
  "\<not> is_word (CHR '')'')" "\<not> is_word (CHR ''*'')" "\<not> is_word (CHR ''+'')"
  "\<not> is_word (CHR '','')" "\<not> is_word (CHR ''-'')" "\<not> is_word (CHR ''.'')"
  "\<not> is_word (CHR ''/'')" "is_word (CHR ''0'')" "is_word (CHR ''1'')" "is_word (CHR ''2'')"
  "is_word (CHR ''3'')" "is_word (CHR ''4'')" "is_word (CHR ''5'')" "is_word (CHR ''6'')"
  "is_word (CHR ''7'')" "is_word (CHR ''8'')" "is_word (CHR ''9'')" "\<not> is_word (CHR '':'')"
  "\<not> is_word (CHR '';'')" "\<not> is_word (CHR ''<'')" "\<not> is_word (CHR ''='')"
  "\<not> is_word (CHR ''>'')" "\<not> is_word (CHR ''?'')" "\<not> is_word (CHR ''@'')"
  "is_word (CHR ''A'')" "is_word (CHR ''B'')" "is_word (CHR ''C'')" "is_word (CHR ''D'')"
  "is_word (CHR ''E'')" "is_word (CHR ''F'')" "is_word (CHR ''G'')" "is_word (CHR ''H'')"
  "is_word (CHR ''I'')" "is_word (CHR ''J'')" "is_word (CHR ''K'')" "is_word (CHR ''L'')"
  "is_word (CHR ''M'')" "is_word (CHR ''N'')" "is_word (CHR ''O'')" "is_word (CHR ''P'')"
  "is_word (CHR ''Q'')" "is_word (CHR ''R'')" "is_word (CHR ''S'')" "is_word (CHR ''T'')"
  "is_word (CHR ''U'')" "is_word (CHR ''V'')" "is_word (CHR ''W'')" "is_word (CHR ''X'')"
  "is_word (CHR ''Y'')" "is_word (CHR ''Z'')" "\<not> is_word (CHR ''['')"
  "\<not> is_word (CHR 0x5C)" "\<not> is_word (CHR '']'')" "\<not> is_word (CHR ''^'')"
  "is_word (CHR ''_'')" "\<not> is_word (CHR 0x60)" "is_word (CHR ''a'')" "is_word (CHR ''b'')"
  "is_word (CHR ''c'')" "is_word (CHR ''d'')" "is_word (CHR ''e'')" "is_word (CHR ''f'')"
  "is_word (CHR ''g'')" "is_word (CHR ''h'')" "is_word (CHR ''i'')" "is_word (CHR ''j'')"
  "is_word (CHR ''k'')" "is_word (CHR ''l'')" "is_word (CHR ''m'')" "is_word (CHR ''n'')"
  "is_word (CHR ''o'')" "is_word (CHR ''p'')" "is_word (CHR ''q'')" "is_word (CHR ''r'')"
  "is_word (CHR ''s'')" "is_word (CHR ''t'')" "is_word (CHR ''u'')" "is_word (CHR ''v'')"
  "is_word (CHR ''w'')" "is_word (CHR ''x'')" "is_word (CHR ''y'')" "is_word (CHR ''z'')"
  "\<not> is_word (CHR ''{'')" "\<not> is_word (CHR ''|'')" "\<not> is_word (CHR ''}'')"
  "\<not> is_word (CHR ''~'')" "\<not> is_word (CHR 0x09)" "\<not> is_word (CHR 0x0A)"
  "\<not> is_word (CHR 0x0D)"
  by (simp_all add: is_word_def is_digit_def is_upper_def is_lower_def digits_def uppercase_def lowercase_def)

lemma upper_char_simps:
  "upper_char (CHR '' '') = CHR '' ''" "upper_char (CHR ''!'') = CHR ''!''"
  "upper_char (CHR 0x22) = CHR 0x22" "upper_char (CHR ''#'') = CHR ''#''"
  "upper_char (CHR ''$'') = CHR ''$''" "upper_char (CHR ''%'') = CHR ''%''"
  "upper_char (CHR ''&'') = CHR ''&''" "upper_char (CHR 0x27) = CHR 0x27"
  "upper_char (CHR ''('') = CHR ''(''" "upper_char (CHR '')'') = CHR '')''"
  "upper_char (CHR ''*'') = CHR ''*''" "upper_char (CHR ''+'') = CHR ''+''"
  "upper_char (CHR '','') = CHR '',''" "upper_char (CHR ''-'') = CHR ''-''"
  "upper_char (CHR ''.'') = CHR ''.''" "upper_char (CHR ''/'') = CHR ''/''"
  "upper_char (CHR ''0'') = CHR ''0''" "upper_char (CHR ''1'') = CHR ''1''"
  "upper_char (CHR ''2'') = CHR ''2''" "upper_char (CHR ''3'') = CHR ''3''"
  "upper_char (CHR ''4'') = CHR ''4''" "upper_char (CHR ''5'') = CHR ''5''"
  "upper_char (CHR ''6'') = CHR ''6''" "upper_char (CHR ''7'') = CHR ''7''"
  "upper_char (CHR ''8'') = CHR ''8''" "upper_char (CHR ''9'') = CHR ''9''"
  "upper_char (CHR '':'') = CHR '':''" "upper_char (CHR '';'') = CHR '';''"
  "upper_char (CHR ''<'') = CHR ''<''" "upper_char (CHR ''='') = CHR ''=''"
  "upper_char (CHR ''>'') = CHR ''>''" "upper_char (CHR ''?'') = CHR ''?''"
  "upper_char (CHR ''@'') = CHR ''@''" "upper_char (CHR ''A'') = CHR ''A''"
  "upper_char (CHR ''B'') = CHR ''B''" "upper_char (CHR ''C'') = CHR ''C''"
  "upper_char (CHR ''D'') = CHR ''D''" "upper_char (CHR ''E'') = CHR ''E''"
  "upper_char (CHR ''F'') = CHR ''F''" "upper_char (CHR ''G'') = CHR ''G''"
  "upper_char (CHR ''H'') = CHR ''H''" "upper_char (CHR ''I'') = CHR ''I''"
  "upper_char (CHR ''J'') = CHR ''J''" "upper_char (CHR ''K'') = CHR ''K''"
  "upper_char (CHR ''L'') = CHR ''L''" "upper_char (CHR ''M'') = CHR ''M''"
  "upper_char (CHR ''N'') = CHR ''N''" "upper_char (CHR ''O'') = CHR ''O''"
  "upper_char (CHR ''P'') = CHR ''P''" "upper_char (CHR ''Q'') = CHR ''Q''"
  "upper_char (CHR ''R'') = CHR ''R''" "upper_char (CHR ''S'') = CHR ''S''"
  "upper_char (CHR ''T'') = CHR ''T''" "upper_char (CHR ''U'') = CHR ''U''"
  "upper_char (CHR ''V'') = CHR ''V''" "upper_char (CHR ''W'') = CHR ''W''"
  "upper_char (CHR ''X'') = CHR ''X''" "upper_char (CHR ''Y'') = CHR ''Y''"
  "upper_char (CHR ''Z'') = CHR ''Z''" "upper_char (CHR ''['') = CHR ''[''"
  "upper_char (CHR 0x5C) = CHR 0x5C" "upper_char (CHR '']'') = CHR '']''"
  "upper_char (CHR ''^'') = CHR ''^''" "upper_char (CHR ''_'') = CHR ''_''"
  "upper_char (CHR 0x60) = CHR 0x60" "upper_char (CHR ''a'') = CHR ''A''"
  "upper_char (CHR ''b'') = CHR ''B''" "upper_char (CHR ''c'') = CHR ''C''"
  "upper_char (CHR ''d'') = CHR ''D''" "upper_char (CHR ''e'') = CHR ''E''"
  "upper_char (CHR ''f'') = CHR ''F''" "upper_char (CHR ''g'') = CHR ''G''"
  "upper_char (CHR ''h'') = CHR ''H''" "upper_char (CHR ''i'') = CHR ''I''"
  "upper_char (CHR ''j'') = CHR ''J''" "upper_char (CHR ''k'') = CHR ''K''"
  "upper_char (CHR ''l'') = CHR ''L''" "upper_char (CHR ''m'') = CHR ''M''"
  "upper_char (CHR ''n'') = CHR ''N''" "upper_char (CHR ''o'') = CHR ''O''"
  "upper_char (CHR ''p'') = CHR ''P''" "upper_char (CHR ''q'') = CHR ''Q''"
  "upper_char (CHR ''r'') = CHR ''R''" "upper_char (CHR ''s'') = CHR ''S''"
  "upper_char (CHR ''t'') = CHR ''T''" "upper_char (CHR ''u'') = CHR ''U''"
  "upper_char (CHR ''v'') = CHR ''V''" "upper_char (CHR ''w'') = CHR ''W''"
  "upper_char (CHR ''x'') = CHR ''X''" "upper_char (CHR ''y'') = CHR ''Y''"
  "upper_char (CHR ''z'') = CHR ''Z''" "upper_char (CHR ''{'') = CHR ''{''"
  "upper_char (CHR ''|'') = CHR ''|''" "upper_char (CHR ''}'') = CHR ''}''"
  "upper_char (CHR ''~'') = CHR ''~''" "upper_char (CHR 0x09) = CHR 0x09"
  "upper_char (CHR 0x0A) = CHR 0x0A" "upper_char (CHR 0x0D) = CHR 0x0D"
  by (simp_all add: upper_char_def lowercase_def uppercase_def)

lemma lower_char_simps:
  "lower_char (CHR '' '') = CHR '' ''" "lower_char (CHR ''!'') = CHR ''!''"
  "lower_char (CHR 0x22) = CHR 0x22" "lower_char (CHR ''#'') = CHR ''#''"
  "lower_char (CHR ''$'') = CHR ''$''" "lower_char (CHR ''%'') = CHR ''%''"
  "lower_char (CHR ''&'') = CHR ''&''" "lower_char (CHR 0x27) = CHR 0x27"
  "lower_char (CHR ''('') = CHR ''(''" "lower_char (CHR '')'') = CHR '')''"
  "lower_char (CHR ''*'') = CHR ''*''" "lower_char (CHR ''+'') = CHR ''+''"
  "lower_char (CHR '','') = CHR '',''" "lower_char (CHR ''-'') = CHR ''-''"
  "lower_char (CHR ''.'') = CHR ''.''" "lower_char (CHR ''/'') = CHR ''/''"
  "lower_char (CHR ''0'') = CHR ''0''" "lower_char (CHR ''1'') = CHR ''1''"
  "lower_char (CHR ''2'') = CHR ''2''" "lower_char (CHR ''3'') = CHR ''3''"
  "lower_char (CHR ''4'') = CHR ''4''" "lower_char (CHR ''5'') = CHR ''5''"
  "lower_char (CHR ''6'') = CHR ''6''" "lower_char (CHR ''7'') = CHR ''7''"
  "lower_char (CHR ''8'') = CHR ''8''" "lower_char (CHR ''9'') = CHR ''9''"
  "lower_char (CHR '':'') = CHR '':''" "lower_char (CHR '';'') = CHR '';''"
  "lower_char (CHR ''<'') = CHR ''<''" "lower_char (CHR ''='') = CHR ''=''"
  "lower_char (CHR ''>'') = CHR ''>''" "lower_char (CHR ''?'') = CHR ''?''"
  "lower_char (CHR ''@'') = CHR ''@''" "lower_char (CHR ''A'') = CHR ''a''"
  "lower_char (CHR ''B'') = CHR ''b''" "lower_char (CHR ''C'') = CHR ''c''"
  "lower_char (CHR ''D'') = CHR ''d''" "lower_char (CHR ''E'') = CHR ''e''"
  "lower_char (CHR ''F'') = CHR ''f''" "lower_char (CHR ''G'') = CHR ''g''"
  "lower_char (CHR ''H'') = CHR ''h''" "lower_char (CHR ''I'') = CHR ''i''"
  "lower_char (CHR ''J'') = CHR ''j''" "lower_char (CHR ''K'') = CHR ''k''"
  "lower_char (CHR ''L'') = CHR ''l''" "lower_char (CHR ''M'') = CHR ''m''"
  "lower_char (CHR ''N'') = CHR ''n''" "lower_char (CHR ''O'') = CHR ''o''"
  "lower_char (CHR ''P'') = CHR ''p''" "lower_char (CHR ''Q'') = CHR ''q''"
  "lower_char (CHR ''R'') = CHR ''r''" "lower_char (CHR ''S'') = CHR ''s''"
  "lower_char (CHR ''T'') = CHR ''t''" "lower_char (CHR ''U'') = CHR ''u''"
  "lower_char (CHR ''V'') = CHR ''v''" "lower_char (CHR ''W'') = CHR ''w''"
  "lower_char (CHR ''X'') = CHR ''x''" "lower_char (CHR ''Y'') = CHR ''y''"
  "lower_char (CHR ''Z'') = CHR ''z''" "lower_char (CHR ''['') = CHR ''[''"
  "lower_char (CHR 0x5C) = CHR 0x5C" "lower_char (CHR '']'') = CHR '']''"
  "lower_char (CHR ''^'') = CHR ''^''" "lower_char (CHR ''_'') = CHR ''_''"
  "lower_char (CHR 0x60) = CHR 0x60" "lower_char (CHR ''a'') = CHR ''a''"
  "lower_char (CHR ''b'') = CHR ''b''" "lower_char (CHR ''c'') = CHR ''c''"
  "lower_char (CHR ''d'') = CHR ''d''" "lower_char (CHR ''e'') = CHR ''e''"
  "lower_char (CHR ''f'') = CHR ''f''" "lower_char (CHR ''g'') = CHR ''g''"
  "lower_char (CHR ''h'') = CHR ''h''" "lower_char (CHR ''i'') = CHR ''i''"
  "lower_char (CHR ''j'') = CHR ''j''" "lower_char (CHR ''k'') = CHR ''k''"
  "lower_char (CHR ''l'') = CHR ''l''" "lower_char (CHR ''m'') = CHR ''m''"
  "lower_char (CHR ''n'') = CHR ''n''" "lower_char (CHR ''o'') = CHR ''o''"
  "lower_char (CHR ''p'') = CHR ''p''" "lower_char (CHR ''q'') = CHR ''q''"
  "lower_char (CHR ''r'') = CHR ''r''" "lower_char (CHR ''s'') = CHR ''s''"
  "lower_char (CHR ''t'') = CHR ''t''" "lower_char (CHR ''u'') = CHR ''u''"
  "lower_char (CHR ''v'') = CHR ''v''" "lower_char (CHR ''w'') = CHR ''w''"
  "lower_char (CHR ''x'') = CHR ''x''" "lower_char (CHR ''y'') = CHR ''y''"
  "lower_char (CHR ''z'') = CHR ''z''" "lower_char (CHR ''{'') = CHR ''{''"
  "lower_char (CHR ''|'') = CHR ''|''" "lower_char (CHR ''}'') = CHR ''}''"
  "lower_char (CHR ''~'') = CHR ''~''" "lower_char (CHR 0x09) = CHR 0x09"
  "lower_char (CHR 0x0A) = CHR 0x0A" "lower_char (CHR 0x0D) = CHR 0x0D"
  by (simp_all add: lower_char_def lowercase_def uppercase_def)

lemmas char_simps =
  is_space_simps is_digit_simps is_word_simps is_upper_simps upper_char_simps lower_char_simps

lemmas re_simps =
  seqs_def lit_def Opt_def Star_def Plus_def Times_def andthen_def one_def guard_def
  word_before_def word_after_def last_char_def match_at_def re_sub_def finditer_def
  re_search_def re_match_def mgroup_def

section \<open>Properties of the query parser and the ranker\<close>

lemmas str_simps = strip_def lstrip_def rstrip_def upper_def remove_char_def

lemmas parse_simps =
  parse_query_def ParsedQuery_def str_simps re_simps char_simps
  DIAMETER_PATTERNS_def decimal_re_def fraction_re_def PKG_WEIGHT_PATTERN_def
  PKG_TYPE_PATTERN_def EXPANSIONS_def slash_re_def ALLOY_PATTERN_def token_re_def
  KNOWN_ALLOYS_def STOP_WORDS_def uppercase_def digits_def Let_def

lemma parse_query_s6:
  "parse_query ''s6 wire 0.045'' =
     \<lparr>raw = ''s6 wire 0.045'', diameters = [''045''], alloys = [''70S'', ''045''],
      pkg_weights = [], pkg_types = [], tokens = [''70S'', ''6'', ''045''],
      normalized = ''70S 6 WIRE 045''\<rparr>"
  by (simp add: parse_simps)

lemma parse_query_wire:
  "parse_query ''wire'' =
     \<lparr>raw = ''wire'', diameters = [], alloys = [], pkg_weights = [], pkg_types = [],
      tokens = [], normalized = ''WIRE''\<rparr>"
  by (simp add: parse_simps)

lemma parse_query_ab:
  "parse_query ''ab'' =
     \<lparr>raw = ''ab'', diameters = [], alloys = [], pkg_weights = [], pkg_types = [],
      tokens = [''AB''], normalized = ''AB''\<rparr>"
  by (simp add: parse_simps)

lemma parse_query_fraction:
  "parse_query ''1/8'' =
     \<lparr>raw = ''1/8'', diameters = [''1 8''], alloys = [], pkg_weights = [], pkg_types = [],
      tokens = [''1'', ''8''], normalized = ''1 8''\<rparr>"
  by (simp add: parse_simps)

text \<open>
  Claim C9. \<open>parse_query\<close> on \<open>s6 wire 0.045\<close> extracts the one diameter \<open>045\<close>; its
  tokens contain \<open>70S\<close> and \<open>6\<close>, the expansion of \<open>s6\<close>, and do not contain \<open>WIRE\<close>.
\<close>

theorem parse_query_s6_wire:
  "diameters (parse_query ''s6 wire 0.045'') = [''045'']
   \<and> ''70S'' \<in> set (tokens (parse_query ''s6 wire 0.045''))
   \<and> ''6'' \<in> set (tokens (parse_query ''s6 wire 0.045''))
   \<and> ''WIRE'' \<notin> set (tokens (parse_query ''s6 wire 0.045''))"
  by (simp add: parse_query_s6)

end
